theory Spec2Isabelle
  imports Main
begin

section \<open>Python values used by \<open>mirugai/settings.py\<close>\<close>

subsection \<open>Strings\<close>

text \<open>
  A Python \<open>str\<close> is modelled as a \<^typ>\<open>string\<close>; the character with code \<open>n\<close>
  stands for the code point \<open>n\<close>, so the model covers the code points below 256.
  \<open>isspace\<close>, \<open>strip\<close>, \<open>upper\<close> and \<open>lower\<close> follow \<open>str.isspace\<close>,
  \<open>str.strip\<close>, \<open>str.upper\<close> and \<open>str.lower\<close> on that range. The capitals of the
  code points 181 and 255 lie beyond it; \<open>upper\<close> leaves these two unchanged, which
  cannot change a comparison with a word of ASCII letters, the only use the module
  makes of \<open>upper\<close>.
\<close>

definition isspace :: "char \<Rightarrow> bool" where
  "isspace c =
     (let n = (of_char c :: nat)
      in (9 \<le> n \<and> n \<le> 13) \<or> (28 \<le> n \<and> n \<le> 32) \<or> n = 133 \<or> n = 160)"

definition strip :: "string \<Rightarrow> string" where
  "strip s = rev (dropWhile isspace (rev (dropWhile isspace s)))"

definition upper_char :: "char \<Rightarrow> string" where
  "upper_char c =
     (let n = (of_char c :: nat)
      in if 97 \<le> n \<and> n \<le> 122 then [char_of (n - 32)]
         else if n = 223 then ''SS''
         else if 224 \<le> n \<and> n \<le> 254 \<and> n \<noteq> 247 then [char_of (n - 32)]
         else [c])"

definition upper :: "string \<Rightarrow> string" where
  "upper s = concat (map upper_char s)"

definition lower_char :: "char \<Rightarrow> char" where
  "lower_char c =
     (let n = (of_char c :: nat)
      in if 65 \<le> n \<and> n \<le> 90 then char_of (n + 32)
         else if 192 \<le> n \<and> n \<le> 222 \<and> n \<noteq> 215 then char_of (n + 32)
         else c)"

definition lower :: "string \<Rightarrow> string" where
  "lower s = map lower_char s"

text \<open>\<open>sep.join(xs)\<close>.\<close>

fun join :: "string \<Rightarrow> string list \<Rightarrow> string" where
  "join sep [] = []"
| "join sep [x] = x"
| "join sep (x # y # ys) = x @ sep @ join sep (y # ys)"

subsection \<open>Exceptions\<close>

text \<open>
  The module raises only \<open>ValueError\<close>. An exception carries the tuple of the
  arguments it was built from. \<open>exc_str\<close> is \<open>str(e)\<close>, the text a validation
  report shows for the exception: nothing for no argument, the argument itself for
  one, and the \<open>repr\<close> of the tuple for more. \<open>repr_str\<close> is \<open>repr\<close> of a string.
\<close>

datatype error = ValueError "string list"

definition hex_digit :: "nat \<Rightarrow> char" where
  "hex_digit d = (if d < 10 then char_of (48 + d) else char_of (87 + d))"

definition repr_char :: "char \<Rightarrow> char \<Rightarrow> string" where
  "repr_char q c =
     (let n = (of_char c :: nat)
      in if c = q \<or> n = 92 then [CHR 0x5C, c]
         else if n = 9 then [CHR 0x5C, CHR ''t'']
         else if n = 10 then [CHR 0x5C, CHR ''n'']
         else if n = 13 then [CHR 0x5C, CHR ''r'']
         else if n < 32 \<or> (127 \<le> n \<and> n \<le> 160) \<or> n = 173
           then [CHR 0x5C, CHR ''x'', hex_digit (n div 16), hex_digit (n mod 16)]
         else [c])"

definition repr_str :: "string \<Rightarrow> string" where
  "repr_str s =
     (let q = (if CHR 0x27 \<in> set s \<and> CHR 0x22 \<notin> set s then CHR 0x22 else CHR 0x27)
      in [q] @ concat (map (repr_char q) s) @ [q])"

definition exc_str :: "error \<Rightarrow> string" where
  "exc_str e =
     (case e of
        ValueError [] \<Rightarrow> []
      | ValueError [a] \<Rightarrow> a
      | ValueError args \<Rightarrow>
          ''('' @ join '', '' (map repr_str args) @ '')'')"

subsection \<open>Paths\<close>

text \<open>
  A \<open>pathlib.Path\<close> on a POSIX system, as \<open>pathlib\<close> parses it: the root
  (empty for a relative path, \<open>/\<close>, or \<open>//\<close> for exactly two leading slashes) and
  the components, with empty components and \<open>.\<close> dropped. \<open>Path_of s\<close> is
  \<open>Path(s)\<close>, \<open>path_str p\<close> is \<open>str(p)\<close>, \<open>parent p\<close> is \<open>p.parent\<close> and
  \<open>joinpath p s\<close> is \<open>p / s\<close>.
\<close>

datatype path = Path (root: string) (parts: "string list")

fun split_sep :: "char \<Rightarrow> string \<Rightarrow> string list" where
  "split_sep sep [] = [[]]"
| "split_sep sep (c # cs) =
     (if c = sep then [] # split_sep sep cs
      else (case split_sep sep cs of
              [] \<Rightarrow> [[c]]
            | x # xs \<Rightarrow> (c # x) # xs))"

definition posix_root :: "string \<Rightarrow> string" where
  "posix_root s =
     (if take 1 s \<noteq> ''/'' then []
      else if take 2 s = ''//'' \<and> take 3 s \<noteq> ''///'' then ''//''
      else ''/'')"

definition Path_of :: "string \<Rightarrow> path" where
  "Path_of s =
     Path (posix_root s) (filter (\<lambda>x. x \<noteq> [] \<and> x \<noteq> ''.'') (split_sep CHR ''/'' s))"

definition path_str :: "path \<Rightarrow> string" where
  "path_str p =
     (if root p = [] \<and> parts p = [] then ''.'' else root p @ join ''/'' (parts p))"

definition parent :: "path \<Rightarrow> path" where
  "parent p = (if parts p = [] then p else Path (root p) (butlast (parts p)))"

definition posix_join :: "string \<Rightarrow> string \<Rightarrow> string" where
  "posix_join a b =
     (if take 1 b = ''/'' then b
      else if a = [] \<or> last a = CHR ''/'' then a @ b
      else a @ ''/'' @ b)"

definition joinpath :: "path \<Rightarrow> string \<Rightarrow> path" where
  "joinpath p s = Path_of (posix_join (path_str p) s)"

section \<open>What the module reads from outside\<close>

text \<open>
  \<open>module_file\<close> is \<open>Path(__file__).resolve()\<close>, the resolved location of
  \<open>settings.py\<close>; \<open>stat\<close> is the file system, giving what a path leads to, if
  anything; \<open>file_entries\<close> gives the \<open>KEY=VALUE\<close> entries of the file at a path,
  in the order of its lines, as the reader of environment files parses them;
  \<open>environ\<close> is \<open>os.environ\<close>, in its iteration order. A relative path is looked
  up from the working directory of the process, which \<open>stat\<close> stands for as well.
\<close>

datatype node = Directory | RegularFile

record world =
  module_file :: path
  stat :: "path \<Rightarrow> node option"
  file_entries :: "path \<Rightarrow> (string \<times> string) list"
  environ :: "(string \<times> string) list"

definition path_exists :: "world \<Rightarrow> path \<Rightarrow> bool" where
  "path_exists w p = (stat w p \<noteq> None)"

definition is_file :: "world \<Rightarrow> path \<Rightarrow> bool" where
  "is_file w p = (stat w p = Some RegularFile)"

section \<open>The module\<close>

text \<open>The five fields of the class \<open>Settings\<close>.\<close>

record Settings =
  app_name :: string
  app_tagline :: string
  root_dir :: path
  app_logo_image :: path
  log_level :: string

subsection \<open>Default locations\<close>

definition get_default_root_dir :: "world \<Rightarrow> path" where
  "get_default_root_dir w = parent (parent (module_file w))"

text \<open>The result is the path together with the warnings the logger emits.\<close>

definition get_default_env_file :: "world \<Rightarrow> path \<times> string list" where
  "get_default_env_file w =
     (let env_file = joinpath (get_default_root_dir w) ''.env''
      in (env_file,
          if \<not> path_exists w env_file then [path_str env_file @ '' does not exist'']
          else []))"

subsection \<open>The field validators\<close>

text \<open>
  Each validator returns its argument (\<open>Inr\<close>) or raises (\<open>Inl\<close>). The validators
  run after the field has been converted to its declared type, so the
  \<open>isinstance(v, str)\<close> test of \<open>validate_str_not_empty\<close> is always true.
\<close>

definition validate_str_not_empty :: "string \<Rightarrow> error + string" where
  "validate_str_not_empty v =
     (if strip v = [] then Inl (ValueError [''app_name must not be empty''])
      else Inr v)"

definition log_levels :: "string list" where
  "log_levels = [''DEBUG'', ''INFO'', ''WARNING'', ''ERROR'', ''CRITICAL'']"

definition validate_log_level :: "string \<Rightarrow> error + string" where
  "validate_log_level v =
     (if upper v \<notin> set log_levels
      then Inl (ValueError [''log_level must be one of DEBUG, INFO, WARNING, ERROR'',
                            ''CRITICAL''])
      else Inr v)"

definition validate_path_exists :: "world \<Rightarrow> path \<Rightarrow> error + path" where
  "validate_path_exists w v =
     (if \<not> path_exists w v then Inl (ValueError [path_str v @ '' does not exist''])
      else Inr v)"

subsection \<open>Construction\<close>

text \<open>
  \<open>Settings\<close> derives from \<open>BaseSettings\<close> of \<open>pydantic_settings\<close>, which is
  not part of the module; what follows is a model of what that class does for this
  module, with its configuration (\<open>case_sensitive\<close> off, \<open>extra\<close> forbidden,
  defaults validated) and the \<open>env_file\<close> of \<open>Config\<close>.

  A Python \<open>dict\<close> is a list of pairs with distinct keys, in insertion order:
  \<open>dict_set d k v\<close> is \<open>d[k] = v\<close>, which keeps the place of a key already there,
  and \<open>dict_of kvs\<close> is the dictionary built from the pairs \<open>kvs\<close> one after the
  other. \<open>parse_env_vars\<close> lower-cases the keys of a source, \<open>env_lookup\<close> reads
  a name from the result. \<open>dotenv_values\<close> is the dictionary the reader of the
  environment file returns for the entries of the file; the file is read when it is a
  regular file (\<open>read_env_file\<close>).

  A field takes its value from the process environment, else from the environment
  file, else its default (\<open>source_value\<close>, \<open>collect_fields\<close>); a string given for
  a path field is converted by \<open>Path\<close>. A key of the environment file that is not
  the name of a field and has a value that is not empty is passed on as an extra input
  (\<open>extra_keys\<close>).

  Every field value, a default too, then goes through the validator declared for the
  field, in the order of the fields, and every extra input is refused. The failures
  are reported together, those of the fields first, each with the name of its field or
  the key of the extra input; only when there is none is the instance returned,
  holding the values the validators returned (\<open>new_Settings\<close>).
\<close>

datatype failure = value_error error | extra_forbidden

definition field_names :: "string list" where
  "field_names = [''app_name'', ''app_tagline'', ''root_dir'', ''app_logo_image'', ''log_level'']"

fun dict_set :: "(string \<times> string) list \<Rightarrow> string \<Rightarrow> string \<Rightarrow> (string \<times> string) list" where
  "dict_set [] k v = [(k, v)]"
| "dict_set (kv # d) k v = (if fst kv = k then (k, v) # d else kv # dict_set d k v)"

definition dict_of :: "(string \<times> string) list \<Rightarrow> (string \<times> string) list" where
  "dict_of kvs = foldl (\<lambda>d kv. dict_set d (fst kv) (snd kv)) [] kvs"

definition parse_env_vars :: "(string \<times> string) list \<Rightarrow> (string \<times> string) list" where
  "parse_env_vars env_vars = dict_of (map (\<lambda>kv. (lower (fst kv), snd kv)) env_vars)"

definition env_lookup :: "(string \<times> string) list \<Rightarrow> string \<Rightarrow> string option" where
  "env_lookup kvs name = map_of (parse_env_vars kvs) name"

definition dotenv_values :: "(string \<times> string) list \<Rightarrow> (string \<times> string) list" where
  "dotenv_values entries = dict_of entries"

definition read_env_file :: "world \<Rightarrow> path \<Rightarrow> (string \<times> string) list" where
  "read_env_file w p = (if is_file w p then dotenv_values (file_entries w p) else [])"

definition source_value :: "world \<Rightarrow> string \<Rightarrow> string option" where
  "source_value w name =
     (case env_lookup (environ w) name of
        Some v \<Rightarrow> Some v
      | None \<Rightarrow> env_lookup (read_env_file w (fst (get_default_env_file w))) name)"

definition collect_fields :: "world \<Rightarrow> Settings" where
  "collect_fields w =
     \<lparr>app_name = (case source_value w ''app_name'' of
                    Some v \<Rightarrow> v | None \<Rightarrow> ''mirugai''),
      app_tagline = (case source_value w ''app_tagline'' of
                       Some v \<Rightarrow> v | None \<Rightarrow> ''Let's make some clams''),
      root_dir = (case source_value w ''root_dir'' of
                    Some v \<Rightarrow> Path_of v | None \<Rightarrow> get_default_root_dir w),
      app_logo_image = (case source_value w ''app_logo_image'' of
                          Some v \<Rightarrow> Path_of v
                        | None \<Rightarrow> joinpath (get_default_root_dir w) ''logo.jpg''),
      log_level = (case source_value w ''log_level'' of
                     Some v \<Rightarrow> v | None \<Rightarrow> ''INFO'')\<rparr>"

definition extra_keys :: "world \<Rightarrow> string list" where
  "extra_keys w =
     map fst
       (filter (\<lambda>kv. snd kv \<noteq> [] \<and> fst kv \<notin> set field_names)
          (parse_env_vars (read_env_file w (fst (get_default_env_file w)))))"

definition field_errors :: "string \<Rightarrow> error + 'a \<Rightarrow> (string \<times> failure) list" where
  "field_errors name r = (case r of Inl e \<Rightarrow> [(name, value_error e)] | Inr v \<Rightarrow> [])"

definition extra_errors :: "world \<Rightarrow> (string \<times> failure) list" where
  "extra_errors w = map (\<lambda>k. (k, extra_forbidden)) (extra_keys w)"

definition new_Settings :: "world \<Rightarrow> (string \<times> failure) list + Settings" where
  "new_Settings w =
     (let d = collect_fields w;
          a = validate_str_not_empty (app_name d);
          r = validate_path_exists w (root_dir d);
          l = validate_log_level (log_level d)
      in case (a, r, l) of
           (Inr a', Inr r', Inr l') \<Rightarrow>
             if extra_keys w = []
             then Inr \<lparr>app_name = a', app_tagline = app_tagline d, root_dir = r',
                       app_logo_image = app_logo_image d, log_level = l'\<rparr>
             else Inl (extra_errors w)
         | _ \<Rightarrow>
             Inl (field_errors ''app_name'' a @ field_errors ''root_dir'' r
                  @ field_errors ''log_level'' l @ extra_errors w))"

text \<open>The failures a validation report lists: those of the fields, then the extra inputs.\<close>

definition collected_errors :: "world \<Rightarrow> (string \<times> failure) list" where
  "collected_errors w =
     field_errors ''app_name'' (validate_str_not_empty (app_name (collect_fields w)))
     @ field_errors ''root_dir'' (validate_path_exists w (root_dir (collect_fields w)))
     @ field_errors ''log_level'' (validate_log_level (log_level (collect_fields w)))
     @ extra_errors w"

subsection \<open>Sample surroundings\<close>

text \<open>
  The module installed as \<open>/srv/app/mirugai/settings.py\<close>, with \<open>/srv/app\<close> and
  \<open>/tmp\<close> directories, \<open>/etc/hostname\<close> a regular file, no environment file and
  an empty process environment; then variations of it.
\<close>

definition world_plain :: world where
  "world_plain =
     \<lparr>module_file = Path ''/'' [''srv'', ''app'', ''mirugai'', ''settings.py''],
      stat = (\<lambda>p. if p = Path ''/'' [''srv'', ''app''] \<or> p = Path ''/'' [''tmp'']
                   then Some Directory
                   else if p = Path ''/'' [''etc'', ''hostname''] then Some RegularFile
                   else None),
      file_entries = (\<lambda>p. []),
      environ = []\<rparr>"

definition world_debug :: world where
  "world_debug = world_plain\<lparr>environ := [(''HOME'', ''/root''), (''LOG_LEVEL'', ''debug'')]\<rparr>"

definition world_moved_root :: world where
  "world_moved_root = world_plain\<lparr>environ := [(''ROOT_DIR'', ''/tmp'')]\<rparr>"

definition world_root_is_file :: world where
  "world_root_is_file = world_plain\<lparr>environ := [(''ROOT_DIR'', ''/etc/hostname'')]\<rparr>"

definition world_bad :: world where
  "world_bad =
     world_plain\<lparr>environ := [(''APP_NAME'', '' ''), (''LOG_LEVEL'', ''verbose''),
                             (''ROOT_DIR'', ''/nowhere'')]\<rparr>"

text \<open>An environment file \<open>/srv/app/.env\<close>, and a variable that overrides one of its lines.\<close>

definition world_env_file :: world where
  "world_env_file =
     \<lparr>module_file = Path ''/'' [''srv'', ''app'', ''mirugai'', ''settings.py''],
      stat = (\<lambda>p. if p = Path ''/'' [''srv'', ''app''] then Some Directory
                   else if p = Path ''/'' [''srv'', ''app'', ''.env''] then Some RegularFile
                   else None),
      file_entries = (\<lambda>p. if p = Path ''/'' [''srv'', ''app'', ''.env'']
                           then [(''APP_NAME'', ''clam''), (''log_level'', ''warning'')]
                           else []),
      environ = [(''Log_Level'', ''Error'')]\<rparr>"

text \<open>
  The same environment file with a line \<open>FOO=bar\<close> that names no field, and an
  empty process environment.
\<close>

definition world_extra :: world where
  "world_extra =
     world_env_file
       \<lparr>file_entries := (\<lambda>p. if p = Path ''/'' [''srv'', ''app'', ''.env'']
                                then [(''APP_NAME'', ''clam''), (''FOO'', ''bar'')]
                                else []),
        environ := []\<rparr>"

text \<open>As \<open>world_plain\<close>, with a regular file \<open>/srv/app/logo.jpg\<close>.\<close>

definition world_with_logo :: world where
  "world_with_logo =
     world_plain
       \<lparr>stat := (stat world_plain)
                  (app_logo_image (collect_fields world_plain) := Some RegularFile)\<rparr>"

section \<open>Properties\<close>

subsection \<open>Auxiliary facts\<close>

lemma validate_str_not_empty_Inr:
  "validate_str_not_empty v = Inr u \<longleftrightarrow> u = v \<and> strip v \<noteq> []"
  by (auto simp: validate_str_not_empty_def)

lemma validate_log_level_Inr:
  "validate_log_level v = Inr u \<longleftrightarrow> u = v \<and> upper v \<in> set log_levels"
  by (auto simp: validate_log_level_def)

lemma validate_path_exists_Inr:
  "validate_path_exists w v = Inr u \<longleftrightarrow> u = v \<and> path_exists w v"
  by (auto simp: validate_path_exists_def)

lemma new_Settings_Inr_iff:
  "new_Settings w = Inr s \<longleftrightarrow>
     s = collect_fields w \<and> strip (app_name s) \<noteq> [] \<and> path_exists w (root_dir s)
     \<and> upper (log_level s) \<in> set log_levels \<and> extra_keys w = []"
  by (cases "collect_fields w")
     (auto simp: new_Settings_def Let_def validate_str_not_empty_def
        validate_log_level_def validate_path_exists_def split: sum.splits)

lemma new_Settings_Inl_iff:
  "new_Settings w = Inl errs \<longleftrightarrow> errs = collected_errors w \<and> errs \<noteq> []"
  by (auto simp: new_Settings_def Let_def collected_errors_def field_errors_def
        extra_errors_def split: sum.splits)

lemma env_lookup_Nil: "env_lookup [] name = None"
  by (simp add: env_lookup_def parse_env_vars_def dict_of_def)

lemma source_value_environ:
  "env_lookup (environ w) name = Some v \<Longrightarrow> source_value w name = Some v"
  by (simp add: source_value_def)

lemma source_value_file:
  "env_lookup (environ w) name = None \<Longrightarrow> is_file w (fst (get_default_env_file w)) \<Longrightarrow>
   source_value w name
     = env_lookup (dotenv_values (file_entries w (fst (get_default_env_file w)))) name"
  by (simp add: source_value_def read_env_file_def)

lemma source_value_no_file:
  "\<not> is_file w (fst (get_default_env_file w)) \<Longrightarrow>
   source_value w name = env_lookup (environ w) name"
  by (simp add: source_value_def read_env_file_def env_lookup_Nil split: option.splits)

lemma extra_keys_no_file:
  "\<not> is_file w (fst (get_default_env_file w)) \<Longrightarrow> extra_keys w = []"
  by (simp add: extra_keys_def read_env_file_def parse_env_vars_def dict_of_def)

lemma extra_keys_not_fields: "k \<in> set (extra_keys w) \<Longrightarrow> k \<notin> set field_names"
  by (auto simp: extra_keys_def)

text \<open>
  Lines of the environment file with the same key are merged before the keys are
  lower-cased: of \<open>LOG_LEVEL=debug\<close>, \<open>log_level=error\<close>, \<open>LOG_LEVEL=info\<close> the
  second decides.
\<close>

lemma dotenv_values_merges_equal_keys:
  "env_lookup (dotenv_values [(''LOG_LEVEL'', ''debug''), (''log_level'', ''error''),
      (''LOG_LEVEL'', ''info'')]) ''log_level'' = Some ''error''"
  by code_simp

text \<open>
  The docstring of the class gives \<open>WARN\<close> as an example of a level; the validator
  refuses it.
\<close>

lemma validate_log_level_refuses_WARN:
  "validate_log_level ''WARN'' =
     Inl (ValueError [''log_level must be one of DEBUG, INFO, WARNING, ERROR'', ''CRITICAL''])"
  by code_simp

lemma root_parent: "root (parent p) = root p"
  by (simp add: parent_def)

lemma validate_log_level_rejects:
  "upper v \<notin> set log_levels \<Longrightarrow>
   validate_log_level v =
     Inl (ValueError [''log_level must be one of DEBUG, INFO, WARNING, ERROR'', ''CRITICAL''])"
  by (simp add: validate_log_level_def)

lemma new_Settings_stat_update:
  assumes not_root: "p \<noteq> root_dir (collect_fields w)"
    and not_env_file: "p \<noteq> fst (get_default_env_file w)"
  shows "new_Settings (w\<lparr>stat := (stat w)(p := n)\<rparr>) = new_Settings w"
proof -
  let ?w = "w\<lparr>stat := (stat w)(p := n)\<rparr>"
  have default_root: "get_default_root_dir ?w = get_default_root_dir w"
    by (simp add: get_default_root_dir_def)
  have env_file: "fst (get_default_env_file ?w) = fst (get_default_env_file w)"
    by (simp add: get_default_env_file_def Let_def default_root)
  have "is_file ?w (fst (get_default_env_file w)) = is_file w (fst (get_default_env_file w))"
    using not_env_file by (simp add: is_file_def)
  then have read: "read_env_file ?w (fst (get_default_env_file ?w))
      = read_env_file w (fst (get_default_env_file w))"
    by (simp add: read_env_file_def env_file)
  have sources: "source_value ?w = source_value w"
    unfolding source_value_def read by simp
  have fields: "collect_fields ?w = collect_fields w"
    unfolding collect_fields_def sources default_root by (rule refl)
  have extras: "extra_keys ?w = extra_keys w"
    unfolding extra_keys_def read by (rule refl)
  have "path_exists ?w (root_dir (collect_fields w)) = path_exists w (root_dir (collect_fields w))"
    using not_root by (simp add: path_exists_def)
  then have checked: "validate_path_exists ?w (root_dir (collect_fields w))
      = validate_path_exists w (root_dir (collect_fields w))"
    by (simp add: validate_path_exists_def)
  show ?thesis
    unfolding new_Settings_def Let_def extra_errors_def fields extras checked by (rule refl)
qed

subsection \<open>Precedence of the sources\<close>

text \<open>
  Claim C1. The sources are layered, defaults below the environment file below the
  process environment, for each of the five fields: a value in the process environment
  is taken whatever the file holds; without one, a value in the environment file is
  taken; without either, the default. An instance holds exactly the values so
  collected. In particular, with \<open>LOG_LEVEL=debug\<close> in the process environment
  (under any spelling of the name whose lower-cased form is \<open>log_level\<close>), none of
  the other four names set, and no environment file (the default path absent, or not a
  regular file), construction succeeds and \<open>log_level\<close> is \<open>debug\<close> as written,
  not the default \<open>INFO\<close>. Construction validates the default \<open>root_dir\<close> as
  well, so this last part is for an installation whose default root directory
  exists.
\<close>

theorem environment_over_file_over_defaults:
  "(let from_env = env_lookup (environ w);
        from_file = (\<lambda>name. if is_file w (fst (get_default_env_file w))
                       then env_lookup
                              (dotenv_values (file_entries w (fst (get_default_env_file w)))) name
                       else None);
        d = collect_fields w
    in (\<forall>v. from_env ''log_level'' = Some v \<longrightarrow> log_level d = v)
     \<and> (\<forall>v. from_env ''log_level'' = None \<and> from_file ''log_level'' = Some v \<longrightarrow> log_level d = v)
     \<and> (from_env ''log_level'' = None \<and> from_file ''log_level'' = None \<longrightarrow> log_level d = ''INFO'')
     \<and> (\<forall>v. from_env ''app_name'' = Some v \<longrightarrow> app_name d = v)
     \<and> (\<forall>v. from_env ''app_name'' = None \<and> from_file ''app_name'' = Some v \<longrightarrow> app_name d = v)
     \<and> (from_env ''app_name'' = None \<and> from_file ''app_name'' = None \<longrightarrow> app_name d = ''mirugai'')
     \<and> (\<forall>v. from_env ''app_tagline'' = Some v \<longrightarrow> app_tagline d = v)
     \<and> (\<forall>v. from_env ''app_tagline'' = None \<and> from_file ''app_tagline'' = Some v \<longrightarrow>
           app_tagline d = v)
     \<and> (from_env ''app_tagline'' = None \<and> from_file ''app_tagline'' = None \<longrightarrow>
           app_tagline d = ''Let's make some clams'')
     \<and> (\<forall>v. from_env ''root_dir'' = Some v \<longrightarrow> root_dir d = Path_of v)
     \<and> (\<forall>v. from_env ''root_dir'' = None \<and> from_file ''root_dir'' = Some v \<longrightarrow>
           root_dir d = Path_of v)
     \<and> (from_env ''root_dir'' = None \<and> from_file ''root_dir'' = None \<longrightarrow>
           root_dir d = get_default_root_dir w)
     \<and> (\<forall>v. from_env ''app_logo_image'' = Some v \<longrightarrow> app_logo_image d = Path_of v)
     \<and> (\<forall>v. from_env ''app_logo_image'' = None \<and> from_file ''app_logo_image'' = Some v \<longrightarrow>
           app_logo_image d = Path_of v)
     \<and> (from_env ''app_logo_image'' = None \<and> from_file ''app_logo_image'' = None \<longrightarrow>
           app_logo_image d = joinpath (get_default_root_dir w) ''logo.jpg'')
     \<and> (\<forall>s. new_Settings w = Inr s \<longrightarrow> s = d)
     \<and> (path_exists w (get_default_root_dir w)
         \<and> \<not> is_file w (fst (get_default_env_file w))
         \<and> from_env ''log_level'' = Some ''debug''
         \<and> from_env ''app_name'' = None \<and> from_env ''app_tagline'' = None
         \<and> from_env ''root_dir'' = None \<and> from_env ''app_logo_image'' = None \<longrightarrow>
         new_Settings w =
           Inr \<lparr>app_name = ''mirugai'',
                app_tagline = ''Let's make some clams'',
                root_dir = get_default_root_dir w,
                app_logo_image = joinpath (get_default_root_dir w) ''logo.jpg'',
                log_level = ''debug''\<rparr>))"
proof -
  let ?env = "env_lookup (environ w)"
  let ?file = "\<lambda>name. if is_file w (fst (get_default_env_file w))
                       then env_lookup
                              (dotenv_values (file_entries w (fst (get_default_env_file w)))) name
                       else None"
  have env: "source_value w name = Some v" if "?env name = Some v" for name v
    using that by (rule source_value_environ)
  have filed: "source_value w name = ?file name" if "?env name = None" for name
    using that by (simp add: source_value_file source_value_no_file)
  have fields:
    "\<forall>v. ?env ''log_level'' = Some v \<longrightarrow> log_level (collect_fields w) = v"
    "\<forall>v. ?env ''log_level'' = None \<and> ?file ''log_level'' = Some v \<longrightarrow>
       log_level (collect_fields w) = v"
    "?env ''log_level'' = None \<and> ?file ''log_level'' = None \<longrightarrow>
       log_level (collect_fields w) = ''INFO''"
    "\<forall>v. ?env ''app_name'' = Some v \<longrightarrow> app_name (collect_fields w) = v"
    "\<forall>v. ?env ''app_name'' = None \<and> ?file ''app_name'' = Some v \<longrightarrow>
       app_name (collect_fields w) = v"
    "?env ''app_name'' = None \<and> ?file ''app_name'' = None \<longrightarrow>
       app_name (collect_fields w) = ''mirugai''"
    "\<forall>v. ?env ''app_tagline'' = Some v \<longrightarrow> app_tagline (collect_fields w) = v"
    "\<forall>v. ?env ''app_tagline'' = None \<and> ?file ''app_tagline'' = Some v \<longrightarrow>
       app_tagline (collect_fields w) = v"
    "?env ''app_tagline'' = None \<and> ?file ''app_tagline'' = None \<longrightarrow>
       app_tagline (collect_fields w) = ''Let's make some clams''"
    "\<forall>v. ?env ''root_dir'' = Some v \<longrightarrow> root_dir (collect_fields w) = Path_of v"
    "\<forall>v. ?env ''root_dir'' = None \<and> ?file ''root_dir'' = Some v \<longrightarrow>
       root_dir (collect_fields w) = Path_of v"
    "?env ''root_dir'' = None \<and> ?file ''root_dir'' = None \<longrightarrow>
       root_dir (collect_fields w) = get_default_root_dir w"
    "\<forall>v. ?env ''app_logo_image'' = Some v \<longrightarrow> app_logo_image (collect_fields w) = Path_of v"
    "\<forall>v. ?env ''app_logo_image'' = None \<and> ?file ''app_logo_image'' = Some v \<longrightarrow>
       app_logo_image (collect_fields w) = Path_of v"
    "?env ''app_logo_image'' = None \<and> ?file ''app_logo_image'' = None \<longrightarrow>
       app_logo_image (collect_fields w) = joinpath (get_default_root_dir w) ''logo.jpg''"
    by (auto simp: collect_fields_def env filed)
  have built: "\<forall>s. new_Settings w = Inr s \<longrightarrow> s = collect_fields w"
    by (simp add: new_Settings_Inr_iff)
  have name: "strip ''mirugai'' \<noteq> []" by code_simp
  have lev: "upper ''debug'' \<in> set log_levels" by code_simp
  have scenario: "new_Settings w =
           Inr \<lparr>app_name = ''mirugai'',
                app_tagline = ''Let's make some clams'',
                root_dir = get_default_root_dir w,
                app_logo_image = joinpath (get_default_root_dir w) ''logo.jpg'',
                log_level = ''debug''\<rparr>"
    if root: "path_exists w (get_default_root_dir w)"
      and no_file: "\<not> is_file w (fst (get_default_env_file w))"
      and vars: "?env ''log_level'' = Some ''debug''" "?env ''app_name'' = None"
        "?env ''app_tagline'' = None" "?env ''root_dir'' = None"
        "?env ''app_logo_image'' = None"
  proof -
    have "collect_fields w =
           \<lparr>app_name = ''mirugai'',
                app_tagline = ''Let's make some clams'',
                root_dir = get_default_root_dir w,
                app_logo_image = joinpath (get_default_root_dir w) ''logo.jpg'',
                log_level = ''debug''\<rparr>"
      using vars by (simp add: collect_fields_def source_value_no_file [OF no_file])
    then show ?thesis
      unfolding new_Settings_Inr_iff
      using root name lev extra_keys_no_file [OF no_file] by simp
  qed
  show ?thesis
    unfolding Let_def using fields built scenario by blast
qed

theorem environment_over_file_over_defaults_witness:
  "env_lookup (environ world_env_file) ''log_level'' = Some ''Error''
   \<and> env_lookup (dotenv_values (file_entries world_env_file
         (fst (get_default_env_file world_env_file)))) ''log_level'' = Some ''warning''
   \<and> log_level (collect_fields world_env_file) = ''Error''
   \<and> env_lookup (environ world_env_file) ''app_name'' = None
   \<and> env_lookup (dotenv_values (file_entries world_env_file
         (fst (get_default_env_file world_env_file)))) ''app_name'' = Some ''clam''
   \<and> app_name (collect_fields world_env_file) = ''clam''
   \<and> app_tagline (collect_fields world_env_file) = ''Let's make some clams''
   \<and> new_Settings world_debug =
       Inr \<lparr>app_name = ''mirugai'',
            app_tagline = ''Let's make some clams'',
            root_dir = Path ''/'' [''srv'', ''app''],
            app_logo_image = Path ''/'' [''srv'', ''app'', ''logo.jpg''],
            log_level = ''debug''\<rparr>"
proof -
  have is_file: "is_file world_env_file (fst (get_default_env_file world_env_file))"
    by code_simp
  have level: "env_lookup (environ world_env_file) ''log_level'' = Some ''Error''"
    "env_lookup (dotenv_values (file_entries world_env_file
         (fst (get_default_env_file world_env_file)))) ''log_level'' = Some ''warning''"
    by code_simp+
  have name: "env_lookup (environ world_env_file) ''app_name'' = None"
    "env_lookup (dotenv_values (file_entries world_env_file
         (fst (get_default_env_file world_env_file)))) ''app_name'' = Some ''clam''"
    by code_simp+
  have tagline: "env_lookup (environ world_env_file) ''app_tagline'' = None"
    "env_lookup (dotenv_values (file_entries world_env_file
         (fst (get_default_env_file world_env_file)))) ''app_tagline'' = None"
    by code_simp+
  have layered: "log_level (collect_fields world_env_file) = ''Error''"
    "app_name (collect_fields world_env_file) = ''clam''"
    "app_tagline (collect_fields world_env_file) = ''Let's make some clams''"
    using environment_over_file_over_defaults [of world_env_file] is_file level name tagline
    unfolding Let_def by simp_all
  have root: "path_exists world_debug (get_default_root_dir world_debug)" by code_simp
  have no_file: "\<not> is_file world_debug (fst (get_default_env_file world_debug))"
    by code_simp
  have vars: "env_lookup (environ world_debug) ''log_level'' = Some ''debug''"
      "env_lookup (environ world_debug) ''app_name'' = None"
      "env_lookup (environ world_debug) ''app_tagline'' = None"
      "env_lookup (environ world_debug) ''root_dir'' = None"
      "env_lookup (environ world_debug) ''app_logo_image'' = None"
    by code_simp+
  have dir: "get_default_root_dir world_debug = Path ''/'' [''srv'', ''app'']"
    by code_simp
  have logo: "joinpath (Path ''/'' [''srv'', ''app'']) ''logo.jpg''
      = Path ''/'' [''srv'', ''app'', ''logo.jpg'']"
    by code_simp
  have "new_Settings world_debug =
       Inr \<lparr>app_name = ''mirugai'',
            app_tagline = ''Let's make some clams'',
            root_dir = get_default_root_dir world_debug,
            app_logo_image = joinpath (get_default_root_dir world_debug) ''logo.jpg'',
            log_level = ''debug''\<rparr>"
    using environment_over_file_over_defaults [of world_debug] root no_file vars
    unfolding Let_def by blast
  then have "new_Settings world_debug =
       Inr \<lparr>app_name = ''mirugai'',
            app_tagline = ''Let's make some clams'',
            root_dir = Path ''/'' [''srv'', ''app''],
            app_logo_image = Path ''/'' [''srv'', ''app'', ''logo.jpg''],
            log_level = ''debug''\<rparr>"
    by (simp add: dir logo)
  with level name layered show ?thesis
    by blast
qed

subsection \<open>The log level\<close>

text \<open>
  Claim C2. Every string whose upper-cased form is not a supported level is rejected
  (\<open>validate_log_level_rejects\<close>), but not with the message the claim gives: the
  \<open>ValueError\<close> is built from two arguments, so its text is the \<open>repr\<close> of a pair
  of strings. The statement evaluates the validator at \<open>verbose\<close>.
\<close>

theorem validate_log_level_message_is_tuple:
  "validate_log_level ''verbose'' =
     Inl (ValueError [''log_level must be one of DEBUG, INFO, WARNING, ERROR'', ''CRITICAL''])
   \<and> exc_str (ValueError [''log_level must be one of DEBUG, INFO, WARNING, ERROR'', ''CRITICAL''])
       = ''('log_level must be one of DEBUG, INFO, WARNING, ERROR', 'CRITICAL')''
   \<and> exc_str (ValueError [''log_level must be one of DEBUG, INFO, WARNING, ERROR'', ''CRITICAL''])
       \<noteq> ''log_level must be one of DEBUG, INFO, WARNING, ERROR, CRITICAL''"
  by code_simp

text \<open>
  Claim C3. A string whose upper-cased form is a supported level passes the validator
  and is returned as given; an instance built from a field value \<open>v\<close> stores \<open>v\<close>
  itself as \<open>log_level\<close>.
\<close>

theorem validate_log_level_accepts:
  assumes "upper v \<in> set log_levels"
  shows "validate_log_level v = Inr v
    \<and> (\<forall>w s. log_level (collect_fields w) = v \<and> new_Settings w = Inr s \<longrightarrow> log_level s = v)"
  using assms by (simp add: validate_log_level_def new_Settings_Inr_iff)

theorem validate_log_level_accepts_witness:
  "upper ''Info'' \<in> set log_levels \<and> validate_log_level ''Info'' = Inr ''Info''
   \<and> upper ''Error'' \<in> set log_levels \<and> log_level (collect_fields world_env_file) = ''Error''
   \<and> log_level (projr (new_Settings world_env_file)) = ''Error''"
proof -
  have info: "upper ''Info'' \<in> set log_levels" by code_simp
  have error: "upper ''Error'' \<in> set log_levels" by code_simp
  have field: "log_level (collect_fields world_env_file) = ''Error''" by code_simp
  have built: "new_Settings world_env_file = Inr (projr (new_Settings world_env_file))"
    by code_simp
  show ?thesis
    using validate_log_level_accepts [OF info] validate_log_level_accepts [OF error]
      info error field built
    by blast
qed

subsection \<open>The application name\<close>

text \<open>
  Claim C4. If the trimmed \<open>app_name\<close> is empty, the validator raises
  \<open>ValueError\<close> with the one argument \<open>app_name must not be empty\<close>, which is also
  the text of the exception, and construction fails reporting it for \<open>app_name\<close>.
  If the trimmed form is not empty, the validator returns the string as given, and
  an instance stores it untrimmed.
\<close>

theorem validate_str_not_empty_trims_for_test_only:
  "(strip v = [] \<longrightarrow>
      validate_str_not_empty v = Inl (ValueError [''app_name must not be empty''])
      \<and> exc_str (ValueError [''app_name must not be empty'']) = ''app_name must not be empty''
      \<and> (\<forall>w. app_name (collect_fields w) = v \<longrightarrow>
            (\<exists>errs. new_Settings w = Inl errs
               \<and> (''app_name'', value_error (ValueError [''app_name must not be empty''])) \<in> set errs)))
   \<and> (strip v \<noteq> [] \<longrightarrow>
      validate_str_not_empty v = Inr v
      \<and> (\<forall>w s. app_name (collect_fields w) = v \<and> new_Settings w = Inr s \<longrightarrow> app_name s = v))"
proof -
  have msg: "exc_str (ValueError [''app_name must not be empty'']) = ''app_name must not be empty''"
    by (simp add: exc_str_def)
  have fails: "\<exists>errs. new_Settings w = Inl errs
      \<and> (''app_name'', value_error (ValueError [''app_name must not be empty''])) \<in> set errs"
    if "strip v = []" "app_name (collect_fields w) = v" for w
    using that
    by (simp add: new_Settings_Inl_iff collected_errors_def field_errors_def
        validate_str_not_empty_def)
  show ?thesis
    using msg fails by (auto simp: validate_str_not_empty_def new_Settings_Inr_iff)
qed

theorem validate_str_not_empty_trims_for_test_only_witness:
  "validate_str_not_empty [] = Inl (ValueError [''app_name must not be empty''])
   \<and> validate_str_not_empty '' '' = Inl (ValueError [''app_name must not be empty''])
   \<and> validate_str_not_empty [CHR 0x09] = Inl (ValueError [''app_name must not be empty''])
   \<and> validate_str_not_empty '' x '' = Inr '' x ''
   \<and> app_name (collect_fields world_bad) = '' ''
   \<and> (\<exists>errs. new_Settings world_bad = Inl errs
         \<and> (''app_name'', value_error (ValueError [''app_name must not be empty''])) \<in> set errs)"
proof -
  have e: "strip [] = []" "strip '' '' = []" "strip [CHR 0x09] = []" by code_simp+
  have x: "strip '' x '' \<noteq> []" by code_simp
  have bad: "app_name (collect_fields world_bad) = '' ''" by code_simp
  show ?thesis
    using validate_str_not_empty_trims_for_test_only [of "[]"]
      validate_str_not_empty_trims_for_test_only [of "'' ''"]
      validate_str_not_empty_trims_for_test_only [of "[CHR 0x09]"]
      validate_str_not_empty_trims_for_test_only [of "'' x ''"]
      e x bad
    by blast
qed

subsection \<open>Existence of paths\<close>

text \<open>
  Claim C5. The \<open>root_dir\<close> validator raises exactly when the path does not exist,
  and the text of the exception starts with the path. Construction applies it to
  \<open>root_dir\<close>: when the collected \<open>root_dir\<close> does not exist, construction fails
  and reports that exception for \<open>root_dir\<close>. Nothing of the kind happens for
  \<open>app_logo_image\<close>: no failure is ever reported under its name, whether
  construction succeeds is decided by \<open>app_name\<close>, \<open>root_dir\<close>, \<open>log_level\<close>
  and the extra inputs alone, and changing what the file system holds at the logo path
  (a path other than \<open>root_dir\<close> and the environment file) changes nothing in the
  result.
\<close>

theorem only_root_dir_is_checked_for_existence:
  "((\<exists>e. validate_path_exists w v = Inl e) \<longleftrightarrow> \<not> path_exists w v)
   \<and> (\<not> path_exists w v \<longrightarrow>
        validate_path_exists w v = Inl (ValueError [path_str v @ '' does not exist''])
        \<and> exc_str (ValueError [path_str v @ '' does not exist''])
            = path_str v @ '' does not exist'')
   \<and> (\<not> path_exists w (root_dir (collect_fields w)) \<longrightarrow>
        (\<exists>errs. new_Settings w = Inl errs
           \<and> (''root_dir'',
               value_error (ValueError [path_str (root_dir (collect_fields w))
                                         @ '' does not exist''])) \<in> set errs))
   \<and> (\<forall>errs. new_Settings w = Inl errs \<longrightarrow> ''app_logo_image'' \<notin> fst ` set errs)
   \<and> ((\<exists>s. new_Settings w = Inr s) \<longleftrightarrow>
        strip (app_name (collect_fields w)) \<noteq> []
        \<and> path_exists w (root_dir (collect_fields w))
        \<and> upper (log_level (collect_fields w)) \<in> set log_levels
        \<and> extra_keys w = [])
   \<and> (\<forall>n. app_logo_image (collect_fields w) \<noteq> root_dir (collect_fields w)
          \<and> app_logo_image (collect_fields w) \<noteq> fst (get_default_env_file w) \<longrightarrow>
          new_Settings (w\<lparr>stat := (stat w)(app_logo_image (collect_fields w) := n)\<rparr>)
            = new_Settings w)"
proof -
  have "''app_logo_image'' \<notin> set (extra_keys w)"
    using extra_keys_not_fields [of "''app_logo_image''" w] by (auto simp: field_names_def)
  then have "''app_logo_image'' \<notin> fst ` set (collected_errors w)"
    by (auto simp: collected_errors_def field_errors_def extra_errors_def split: sum.splits)
  then have logo: "\<forall>errs. new_Settings w = Inl errs \<longrightarrow> ''app_logo_image'' \<notin> fst ` set errs"
    by (simp add: new_Settings_Inl_iff)
  have shown: "exc_str (ValueError [path_str v @ '' does not exist''])
      = path_str v @ '' does not exist''"
    by (simp add: exc_str_def)
  have missing: "\<exists>errs. new_Settings w = Inl errs
           \<and> (''root_dir'',
               value_error (ValueError [path_str (root_dir (collect_fields w))
                                         @ '' does not exist''])) \<in> set errs"
    if "\<not> path_exists w (root_dir (collect_fields w))"
    using that
    by (simp add: new_Settings_Inl_iff collected_errors_def field_errors_def
        validate_path_exists_def)
  have built: "(\<exists>s. new_Settings w = Inr s) \<longleftrightarrow>
        strip (app_name (collect_fields w)) \<noteq> []
        \<and> path_exists w (root_dir (collect_fields w))
        \<and> upper (log_level (collect_fields w)) \<in> set log_levels
        \<and> extra_keys w = []"
    by (auto simp: new_Settings_Inr_iff)
  have unread: "\<forall>n. app_logo_image (collect_fields w) \<noteq> root_dir (collect_fields w)
          \<and> app_logo_image (collect_fields w) \<noteq> fst (get_default_env_file w) \<longrightarrow>
          new_Settings (w\<lparr>stat := (stat w)(app_logo_image (collect_fields w) := n)\<rparr>)
            = new_Settings w"
    by (simp add: new_Settings_stat_update)
  have validator: "(\<exists>e. validate_path_exists w v = Inl e) \<longleftrightarrow> \<not> path_exists w v"
    "\<not> path_exists w v \<longrightarrow>
        validate_path_exists w v = Inl (ValueError [path_str v @ '' does not exist''])"
    by (simp_all add: validate_path_exists_def)
  show ?thesis
    using validator shown missing logo built unread by blast
qed

theorem only_root_dir_is_checked_for_existence_witness:
  "\<not> path_exists world_plain (Path ''/'' [''nowhere''])
   \<and> validate_path_exists world_plain (Path ''/'' [''nowhere''])
       = Inl (ValueError [''/nowhere does not exist''])
   \<and> root_dir (collect_fields world_bad) = Path ''/'' [''nowhere'']
   \<and> (\<exists>errs. new_Settings world_bad = Inl errs
         \<and> (''root_dir'', value_error (ValueError [''/nowhere does not exist''])) \<in> set errs)
   \<and> \<not> path_exists world_plain (app_logo_image (collect_fields world_plain))
   \<and> (\<exists>s. new_Settings world_plain = Inr s)
   \<and> path_exists world_with_logo (app_logo_image (collect_fields world_plain))
   \<and> new_Settings world_with_logo = new_Settings world_plain"
proof -
  have missing: "\<not> path_exists world_plain (Path ''/'' [''nowhere''])" by code_simp
  have shown: "path_str (Path ''/'' [''nowhere'']) @ '' does not exist''
      = ''/nowhere does not exist''"
    by code_simp
  have "validate_path_exists world_plain (Path ''/'' [''nowhere''])
      = Inl (ValueError [path_str (Path ''/'' [''nowhere'']) @ '' does not exist''])"
    using only_root_dir_is_checked_for_existence [of world_plain "Path ''/'' [''nowhere'']"]
      missing
    by blast
  then have raised: "validate_path_exists world_plain (Path ''/'' [''nowhere''])
      = Inl (ValueError [''/nowhere does not exist''])"
    unfolding shown .
  have bad_dir: "root_dir (collect_fields world_bad) = Path ''/'' [''nowhere'']"
    by code_simp
  have bad_missing: "\<not> path_exists world_bad (root_dir (collect_fields world_bad))"
    by code_simp
  have "\<exists>errs. new_Settings world_bad = Inl errs
         \<and> (''root_dir'',
             value_error (ValueError [path_str (root_dir (collect_fields world_bad))
                                       @ '' does not exist''])) \<in> set errs"
    using only_root_dir_is_checked_for_existence [of world_bad] bad_missing
    by blast
  then have reported: "\<exists>errs. new_Settings world_bad = Inl errs
         \<and> (''root_dir'', value_error (ValueError [''/nowhere does not exist''])) \<in> set errs"
    unfolding bad_dir shown .
  have logo: "\<not> path_exists world_plain (app_logo_image (collect_fields world_plain))"
    "path_exists world_with_logo (app_logo_image (collect_fields world_plain))"
    by code_simp+
  have valid: "strip (app_name (collect_fields world_plain)) \<noteq> []"
    "path_exists world_plain (root_dir (collect_fields world_plain))"
    "upper (log_level (collect_fields world_plain)) \<in> set log_levels"
    "extra_keys world_plain = []"
    by code_simp+
  have built: "\<exists>s. new_Settings world_plain = Inr s"
    using only_root_dir_is_checked_for_existence [of world_plain] valid
    by blast
  have apart: "app_logo_image (collect_fields world_plain) \<noteq> root_dir (collect_fields world_plain)"
    "app_logo_image (collect_fields world_plain) \<noteq> fst (get_default_env_file world_plain)"
    by code_simp+
  have same: "new_Settings world_with_logo = new_Settings world_plain"
    unfolding world_with_logo_def
    using only_root_dir_is_checked_for_existence [of world_plain] apart
    by blast
  from missing raised bad_dir reported logo built same show ?thesis
    by blast
qed

text \<open>
  Claim C10. The \<open>root_dir\<close> validator tests existence only: it returns every
  existing path as given, a regular file included.
\<close>

theorem validate_path_exists_accepts_any_node:
  "(path_exists w v \<longrightarrow> validate_path_exists w v = Inr v)
   \<and> (stat w v = Some RegularFile \<longrightarrow> validate_path_exists w v = Inr v)"
  by (simp add: validate_path_exists_def path_exists_def)

theorem validate_path_exists_accepts_any_node_witness:
  "stat world_root_is_file (Path ''/'' [''etc'', ''hostname'']) = Some RegularFile
   \<and> root_dir (collect_fields world_root_is_file) = Path ''/'' [''etc'', ''hostname'']
   \<and> validate_path_exists world_root_is_file (Path ''/'' [''etc'', ''hostname''])
       = Inr (Path ''/'' [''etc'', ''hostname''])"
proof -
  have regular: "stat world_root_is_file (Path ''/'' [''etc'', ''hostname'']) = Some RegularFile"
    by code_simp
  have dir: "root_dir (collect_fields world_root_is_file) = Path ''/'' [''etc'', ''hostname'']"
    by code_simp
  show ?thesis
    using validate_path_exists_accepts_any_node
        [of world_root_is_file "Path ''/'' [''etc'', ''hostname'']"] regular dir
    by blast
qed

subsection \<open>Defaults\<close>

text \<open>
  Claim C6. Without an environment file and with none of the five names in the process
  environment, construction succeeds with the five defaults; \<open>root_dir\<close> is the parent
  of the parent of the resolved module file and has the root of that file, so it is
  absolute when the resolved file is. Construction validates the default \<open>root_dir\<close>,
  so the statement is for an installation whose default root directory exists.
\<close>

theorem defaults_without_sources:
  assumes root: "path_exists w (get_default_root_dir w)"
    and no_file: "\<not> is_file w (fst (get_default_env_file w))"
    and no_vars: "env_lookup (environ w) ''app_name'' = None"
      "env_lookup (environ w) ''app_tagline'' = None"
      "env_lookup (environ w) ''root_dir'' = None"
      "env_lookup (environ w) ''app_logo_image'' = None"
      "env_lookup (environ w) ''log_level'' = None"
  shows "new_Settings w =
           Inr \<lparr>app_name = ''mirugai'',
                app_tagline = ''Let's make some clams'',
                root_dir = parent (parent (module_file w)),
                app_logo_image = joinpath (parent (parent (module_file w))) ''logo.jpg'',
                log_level = ''INFO''\<rparr>
         \<and> root (parent (parent (module_file w))) = root (module_file w)"
proof -
  have fields: "collect_fields w =
           \<lparr>app_name = ''mirugai'',
                app_tagline = ''Let's make some clams'',
                root_dir = parent (parent (module_file w)),
                app_logo_image = joinpath (parent (parent (module_file w))) ''logo.jpg'',
                log_level = ''INFO''\<rparr>"
    using no_vars
    by (simp add: collect_fields_def source_value_no_file [OF no_file] get_default_root_dir_def)
  have name: "strip ''mirugai'' \<noteq> []" by code_simp
  have lev: "upper ''INFO'' \<in> set log_levels" by code_simp
  have "new_Settings w = Inr (collect_fields w)"
    unfolding new_Settings_Inr_iff fields
    using root name lev extra_keys_no_file [OF no_file]
    by (simp add: get_default_root_dir_def)
  then show ?thesis
    by (simp add: fields root_parent)
qed

theorem defaults_without_sources_witness:
  "new_Settings world_plain =
     Inr \<lparr>app_name = ''mirugai'',
          app_tagline = ''Let's make some clams'',
          root_dir = Path ''/'' [''srv'', ''app''],
          app_logo_image = Path ''/'' [''srv'', ''app'', ''logo.jpg''],
          log_level = ''INFO''\<rparr>
   \<and> snd (get_default_env_file world_plain) = [''/srv/app/.env does not exist'']"
proof -
  have root: "path_exists world_plain (get_default_root_dir world_plain)" by code_simp
  have no_file: "\<not> is_file world_plain (fst (get_default_env_file world_plain))"
    by code_simp
  have no_vars: "env_lookup (environ world_plain) ''app_name'' = None"
      "env_lookup (environ world_plain) ''app_tagline'' = None"
      "env_lookup (environ world_plain) ''root_dir'' = None"
      "env_lookup (environ world_plain) ''app_logo_image'' = None"
      "env_lookup (environ world_plain) ''log_level'' = None"
    by code_simp+
  have dir: "parent (parent (module_file world_plain)) = Path ''/'' [''srv'', ''app'']"
    by code_simp
  have logo: "joinpath (Path ''/'' [''srv'', ''app'']) ''logo.jpg''
      = Path ''/'' [''srv'', ''app'', ''logo.jpg'']"
    by code_simp
  have warned: "snd (get_default_env_file world_plain) = [''/srv/app/.env does not exist'']"
    by code_simp
  show ?thesis
    using defaults_without_sources [OF root no_file no_vars] warned
    by (simp add: dir logo)
qed

text \<open>
  Claim C7, as stated, fails: in \<open>world_moved_root\<close> the variable \<open>ROOT_DIR\<close>
  moves \<open>root_dir\<close> to \<open>/tmp\<close>, \<open>app_logo_image\<close> is not supplied, and the
  instance holds \<open>/srv/app/logo.jpg\<close>, not \<open>/tmp/logo.jpg\<close>.
\<close>

theorem logo_default_ignores_root_dir_override:
  "source_value world_moved_root ''app_logo_image'' = None
   \<and> new_Settings world_moved_root =
       Inr \<lparr>app_name = ''mirugai'',
            app_tagline = ''Let's make some clams'',
            root_dir = Path ''/'' [''tmp''],
            app_logo_image = Path ''/'' [''srv'', ''app'', ''logo.jpg''],
            log_level = ''INFO''\<rparr>
   \<and> joinpath (Path ''/'' [''tmp'']) ''logo.jpg'' = Path ''/'' [''tmp'', ''logo.jpg'']
   \<and> Path ''/'' [''srv'', ''app'', ''logo.jpg''] \<noteq> Path ''/'' [''tmp'', ''logo.jpg'']"
  by code_simp

text \<open>
  Claim C7, amended. When \<open>app_logo_image\<close> is not supplied, its value is the
  default root directory joined with \<open>logo.jpg\<close>, whatever \<open>root_dir\<close> is; it equals
  \<open>root_dir\<close> joined with \<open>logo.jpg\<close> when \<open>root_dir\<close> is not supplied
  either.
\<close>

theorem logo_default_under_default_root:
  assumes "source_value w ''app_logo_image'' = None"
    and "new_Settings w = Inr s"
  shows "app_logo_image s = joinpath (get_default_root_dir w) ''logo.jpg''
    \<and> (source_value w ''root_dir'' = None \<longrightarrow>
         app_logo_image s = joinpath (root_dir s) ''logo.jpg'')"
  using assms by (simp add: new_Settings_Inr_iff collect_fields_def)

theorem logo_default_under_default_root_witness:
  "source_value world_env_file ''app_logo_image'' = None
   \<and> source_value world_env_file ''root_dir'' = None
   \<and> new_Settings world_env_file =
       Inr \<lparr>app_name = ''clam'',
            app_tagline = ''Let's make some clams'',
            root_dir = Path ''/'' [''srv'', ''app''],
            app_logo_image = Path ''/'' [''srv'', ''app'', ''logo.jpg''],
            log_level = ''Error''\<rparr>
   \<and> Path ''/'' [''srv'', ''app'', ''logo.jpg'']
       = joinpath (get_default_root_dir world_env_file) ''logo.jpg''
   \<and> Path ''/'' [''srv'', ''app'', ''logo.jpg'']
       = joinpath (Path ''/'' [''srv'', ''app'']) ''logo.jpg''"
proof -
  let ?s = "\<lparr>app_name = ''clam'',
            app_tagline = ''Let's make some clams'',
            root_dir = Path ''/'' [''srv'', ''app''],
            app_logo_image = Path ''/'' [''srv'', ''app'', ''logo.jpg''],
            log_level = ''Error''\<rparr>"
  have logo: "source_value world_env_file ''app_logo_image'' = None" by code_simp
  have dir: "source_value world_env_file ''root_dir'' = None" by code_simp
  have built: "new_Settings world_env_file = Inr ?s" by code_simp
  have sel: "app_logo_image ?s = Path ''/'' [''srv'', ''app'', ''logo.jpg'']"
      "root_dir ?s = Path ''/'' [''srv'', ''app'']"
    by simp_all
  from logo_default_under_default_root [OF logo built] dir
  have "app_logo_image ?s = joinpath (get_default_root_dir world_env_file) ''logo.jpg''"
      "app_logo_image ?s = joinpath (root_dir ?s) ''logo.jpg''"
    by blast+
  then have "Path ''/'' [''srv'', ''app'', ''logo.jpg'']
        = joinpath (get_default_root_dir world_env_file) ''logo.jpg''"
      "Path ''/'' [''srv'', ''app'', ''logo.jpg'']
        = joinpath (Path ''/'' [''srv'', ''app'']) ''logo.jpg''"
    unfolding sel by this+
  with logo dir built show ?thesis
    by blast
qed

subsection \<open>Construction as a whole\<close>

text \<open>
  Claim C8. Construction returns either an instance or a list of failures, never
  both. If the validator of a field raises, construction fails and the list holds that
  exception under the name of the field; an extra input fails construction as well.
  An instance holds the collected values of all five fields, each of its validated
  fields passes its validator, and there was no extra input. A list of failures is
  never empty; each entry is the exception a validator raised, under the name of its
  field, or the refusal of an extra input, under a key that is not a field.
\<close>

theorem construction_is_all_or_nothing:
  "(\<forall>e. validate_str_not_empty (app_name (collect_fields w)) = Inl e \<longrightarrow>
        (\<exists>errs. new_Settings w = Inl errs \<and> (''app_name'', value_error e) \<in> set errs))
   \<and> (\<forall>e. validate_path_exists w (root_dir (collect_fields w)) = Inl e \<longrightarrow>
        (\<exists>errs. new_Settings w = Inl errs \<and> (''root_dir'', value_error e) \<in> set errs))
   \<and> (\<forall>e. validate_log_level (log_level (collect_fields w)) = Inl e \<longrightarrow>
        (\<exists>errs. new_Settings w = Inl errs \<and> (''log_level'', value_error e) \<in> set errs))
   \<and> (\<forall>k. k \<in> set (extra_keys w) \<longrightarrow>
        (\<exists>errs. new_Settings w = Inl errs \<and> (k, extra_forbidden) \<in> set errs))
   \<and> (\<forall>s. new_Settings w = Inr s \<longrightarrow>
        s = collect_fields w
        \<and> validate_str_not_empty (app_name s) = Inr (app_name s)
        \<and> validate_path_exists w (root_dir s) = Inr (root_dir s)
        \<and> validate_log_level (log_level s) = Inr (log_level s)
        \<and> extra_keys w = [])
   \<and> (\<forall>errs. new_Settings w = Inl errs \<longrightarrow>
        errs \<noteq> []
        \<and> (\<forall>fe \<in> set errs.
              validate_str_not_empty (app_name (collect_fields w))
                = Inl (projl (validate_str_not_empty (app_name (collect_fields w))))
                \<and> fe = (''app_name'',
                    value_error (projl (validate_str_not_empty (app_name (collect_fields w)))))
              \<or> validate_path_exists w (root_dir (collect_fields w))
                = Inl (projl (validate_path_exists w (root_dir (collect_fields w))))
                \<and> fe = (''root_dir'',
                    value_error (projl (validate_path_exists w (root_dir (collect_fields w)))))
              \<or> validate_log_level (log_level (collect_fields w))
                = Inl (projl (validate_log_level (log_level (collect_fields w))))
                \<and> fe = (''log_level'',
                    value_error (projl (validate_log_level (log_level (collect_fields w)))))
              \<or> fst fe \<in> set (extra_keys w) \<and> fst fe \<notin> set field_names
                \<and> snd fe = extra_forbidden))"
proof -
  have name: "\<exists>errs. new_Settings w = Inl errs \<and> (''app_name'', value_error e) \<in> set errs"
    if "validate_str_not_empty (app_name (collect_fields w)) = Inl e" for e
    using that by (simp add: new_Settings_Inl_iff collected_errors_def field_errors_def)
  have dir: "\<exists>errs. new_Settings w = Inl errs \<and> (''root_dir'', value_error e) \<in> set errs"
    if "validate_path_exists w (root_dir (collect_fields w)) = Inl e" for e
    using that by (simp add: new_Settings_Inl_iff collected_errors_def field_errors_def)
  have level: "\<exists>errs. new_Settings w = Inl errs \<and> (''log_level'', value_error e) \<in> set errs"
    if "validate_log_level (log_level (collect_fields w)) = Inl e" for e
    using that by (simp add: new_Settings_Inl_iff collected_errors_def field_errors_def)
  have extra: "\<exists>errs. new_Settings w = Inl errs \<and> (k, extra_forbidden) \<in> set errs"
    if "k \<in> set (extra_keys w)" for k
    using that
    by (auto simp: new_Settings_Inl_iff collected_errors_def extra_errors_def)
  have built: "s = collect_fields w
        \<and> validate_str_not_empty (app_name s) = Inr (app_name s)
        \<and> validate_path_exists w (root_dir s) = Inr (root_dir s)
        \<and> validate_log_level (log_level s) = Inr (log_level s)
        \<and> extra_keys w = []"
    if "new_Settings w = Inr s" for s
    using that
    by (auto simp: new_Settings_Inr_iff validate_str_not_empty_Inr validate_path_exists_Inr
        validate_log_level_Inr)
  have failed: "errs \<noteq> []
        \<and> (\<forall>fe \<in> set errs.
              validate_str_not_empty (app_name (collect_fields w))
                = Inl (projl (validate_str_not_empty (app_name (collect_fields w))))
                \<and> fe = (''app_name'',
                    value_error (projl (validate_str_not_empty (app_name (collect_fields w)))))
              \<or> validate_path_exists w (root_dir (collect_fields w))
                = Inl (projl (validate_path_exists w (root_dir (collect_fields w))))
                \<and> fe = (''root_dir'',
                    value_error (projl (validate_path_exists w (root_dir (collect_fields w)))))
              \<or> validate_log_level (log_level (collect_fields w))
                = Inl (projl (validate_log_level (log_level (collect_fields w))))
                \<and> fe = (''log_level'',
                    value_error (projl (validate_log_level (log_level (collect_fields w)))))
              \<or> fst fe \<in> set (extra_keys w) \<and> fst fe \<notin> set field_names
                \<and> snd fe = extra_forbidden)"
    if "new_Settings w = Inl errs" for errs
    using that extra_keys_not_fields [of _ w]
    by (auto simp: new_Settings_Inl_iff collected_errors_def field_errors_def
        extra_errors_def split: sum.splits)
  show ?thesis
    using name dir level extra built failed by blast
qed

theorem construction_is_all_or_nothing_witness:
  "(\<exists>errs. new_Settings world_bad = Inl errs
      \<and> (''app_name'', value_error (ValueError [''app_name must not be empty''])) \<in> set errs)
   \<and> (\<exists>errs. new_Settings world_bad = Inl errs
      \<and> (''root_dir'', value_error (ValueError [''/nowhere does not exist''])) \<in> set errs)
   \<and> (\<exists>errs. new_Settings world_extra = Inl errs \<and> (''foo'', extra_forbidden) \<in> set errs)
   \<and> validate_str_not_empty (app_name (projr (new_Settings world_env_file)))
       = Inr (app_name (projr (new_Settings world_env_file)))
   \<and> validate_path_exists world_env_file (root_dir (projr (new_Settings world_env_file)))
       = Inr (root_dir (projr (new_Settings world_env_file)))
   \<and> validate_log_level (log_level (projr (new_Settings world_env_file)))
       = Inr (log_level (projr (new_Settings world_env_file)))"
proof -
  have name: "validate_str_not_empty (app_name (collect_fields world_bad))
      = Inl (ValueError [''app_name must not be empty''])"
    by code_simp
  have dir: "validate_path_exists world_bad (root_dir (collect_fields world_bad))
      = Inl (ValueError [''/nowhere does not exist''])"
    by code_simp
  have extra: "''foo'' \<in> set (extra_keys world_extra)"
    by code_simp
  have built: "new_Settings world_env_file = Inr (projr (new_Settings world_env_file))"
    by code_simp
  show ?thesis
    using construction_is_all_or_nothing [of world_bad]
      construction_is_all_or_nothing [of world_extra]
      construction_is_all_or_nothing [of world_env_file] name dir extra built
    by blast
qed

end
